theory Spec2Isabelle
  imports
    Complex_Main
    "HOL-Library.Char_ord"
    "HOL-Library.List_Lexorder"
    "HOL-Library.Product_Lexorder"
    "HOL-Library.Multiset"
    "HOL-Library.Sublist"
begin

section \<open>Floating-point values\<close>

text \<open>
  The dashboard of \<^verbatim>\<open>main.py\<close> computes with pandas Series of IEEE doubles. A value
  is not-a-number, an infinity, the negative zero, or a finite number; \<open>Fin 0\<close> is the
  positive zero. Finite values carry exact real arithmetic: rounding and overflow
  are not modelled. The special values follow IEEE 754, which is what the
  element-wise Series operators compute (a division by zero is an infinity or
  not-a-number, never an exception).
\<close>

datatype fl = NaN | Fin real | NegZero | PInf | NInf

fun signbit :: "fl \<Rightarrow> bool" where
  "signbit NaN = False"
| "signbit (Fin r) = (r < 0)"
| "signbit NegZero = True"
| "signbit PInf = False"
| "signbit NInf = True"

fun is_zero :: "fl \<Rightarrow> bool" where
  "is_zero (Fin r) = (r = 0)"
| "is_zero NegZero = True"
| "is_zero _ = False"

fun is_inf :: "fl \<Rightarrow> bool" where
  "is_inf PInf = True"
| "is_inf NInf = True"
| "is_inf _ = False"

fun val :: "fl \<Rightarrow> real" where
  "val (Fin r) = r"
| "val _ = 0"

definition zero_s :: "bool \<Rightarrow> fl" where
  "zero_s s = (if s then NegZero else Fin 0)"

definition inf_s :: "bool \<Rightarrow> fl" where
  "inf_s s = (if s then NInf else PInf)"

fun fl_neg :: "fl \<Rightarrow> fl" where
  "fl_neg NaN = NaN"
| "fl_neg (Fin r) = (if r = 0 then NegZero else Fin (- r))"
| "fl_neg NegZero = Fin 0"
| "fl_neg PInf = NInf"
| "fl_neg NInf = PInf"

fun fl_add :: "fl \<Rightarrow> fl \<Rightarrow> fl" where
  "fl_add NaN _ = NaN"
| "fl_add _ NaN = NaN"
| "fl_add PInf NInf = NaN"
| "fl_add NInf PInf = NaN"
| "fl_add PInf _ = PInf"
| "fl_add _ PInf = PInf"
| "fl_add NInf _ = NInf"
| "fl_add _ NInf = NInf"
| "fl_add NegZero NegZero = NegZero"
| "fl_add NegZero (Fin b) = Fin b"
| "fl_add (Fin a) NegZero = Fin a"
| "fl_add (Fin a) (Fin b) = Fin (a + b)"

definition fl_sub :: "fl \<Rightarrow> fl \<Rightarrow> fl" where
  "fl_sub a b = fl_add a (fl_neg b)"

definition fl_div :: "fl \<Rightarrow> fl \<Rightarrow> fl" where
  "fl_div a b =
     (if a = NaN \<or> b = NaN then NaN
      else if is_inf a then (if is_inf b then NaN else inf_s (signbit a \<noteq> signbit b))
      else if is_inf b then zero_s (signbit a \<noteq> signbit b)
      else if is_zero b then (if is_zero a then NaN else inf_s (signbit a \<noteq> signbit b))
      else if is_zero a then zero_s (signbit a \<noteq> signbit b)
      else Fin (val a / val b))"

section \<open>Series operations\<close>

text \<open>
  A Series is the list of its values in index order. \<^verbatim>\<open>series.diff()\<close> is
  not-a-number at the first position and the difference to the previous value
  afterwards.
\<close>

fun diff :: "fl list \<Rightarrow> fl list" where
  "diff [] = []"
| "diff (x # xs) = NaN # map2 (\<lambda>prev cur. fl_sub cur prev) (x # xs) xs"

text \<open>
  \<^verbatim>\<open>clip(lower=0)\<close> and \<^verbatim>\<open>clip(upper=0)\<close>: a value that is missing or already
  within the bound is kept, any other value is replaced by the bound \<open>0\<close>.
\<close>

fun clip_lower0 :: "fl \<Rightarrow> fl" where
  "clip_lower0 (Fin r) = (if r \<ge> 0 then Fin r else Fin 0)"
| "clip_lower0 NInf = Fin 0"
| "clip_lower0 x = x"

fun clip_upper0 :: "fl \<Rightarrow> fl" where
  "clip_upper0 (Fin r) = (if r \<le> 0 then Fin r else Fin 0)"
| "clip_upper0 PInf = Fin 0"
| "clip_upper0 x = x"

text \<open>
  \<^verbatim>\<open>rolling(window=w).mean()\<close>: the window at position \<open>i\<close> holds the last \<open>w\<close>
  values up to \<open>i\<close> (fewer near the start). \<^verbatim>\<open>min_periods\<close> defaults to the
  window size: the result is the mean of the observations (the values that are
  not missing) when there are at least \<open>w\<close> of them, and not-a-number otherwise.
\<close>

definition window_at :: "nat \<Rightarrow> 'a list \<Rightarrow> nat \<Rightarrow> 'a list" where
  "window_at w xs i = drop (Suc i - w) (take (Suc i) xs)"

definition fl_sum :: "fl list \<Rightarrow> fl" where
  "fl_sum xs = foldl fl_add (Fin 0) xs"

definition window_mean :: "nat \<Rightarrow> fl list \<Rightarrow> fl" where
  "window_mean min_periods win =
     (let obs = filter (\<lambda>v. v \<noteq> NaN) win
      in if length obs \<ge> min_periods \<and> length obs > 0
         then fl_div (fl_sum obs) (Fin (real (length obs))) else NaN)"

definition rolling_mean :: "nat \<Rightarrow> fl list \<Rightarrow> fl list" where
  "rolling_mean w xs = map (\<lambda>i. window_mean w (window_at w xs i)) [0..<length xs]"

text \<open>
  \<^verbatim>\<open>ewm(span=s, adjust=False).mean()\<close> on a series without missing values:
  the first value seeds the average, and each later value \<open>x\<close> turns the
  average \<open>y\<close> into \<open>(1 - \<alpha>) * y + \<alpha> * x\<close> with \<open>\<alpha> = 2 / (s + 1)\<close>.
\<close>

fun ewm_from :: "real \<Rightarrow> real \<Rightarrow> real list \<Rightarrow> real list" where
  "ewm_from \<alpha> y [] = []"
| "ewm_from \<alpha> y (x # xs) = (let y' = (1 - \<alpha>) * y + \<alpha> * x in y' # ewm_from \<alpha> y' xs)"

fun ewm_mean :: "nat \<Rightarrow> real list \<Rightarrow> fl list" where
  "ewm_mean span_n [] = []"
| "ewm_mean span_n (x # xs) = map Fin (x # ewm_from (2 / (real span_n + 1)) x xs)"

section \<open>The helper \<^verbatim>\<open>compute_rsi\<close>\<close>

text \<open>
  \<^verbatim>\<open>
  def compute_rsi(series, period=14):
      delta = series.diff()
      gain = delta.clip(lower=0).rolling(window=period).mean()
      loss = -delta.clip(upper=0).rolling(window=period).mean()
      rs = gain / loss
      return 100 - (100 / (1 + rs))
  \<close>
  The unary minus applies to the rolling mean of the clipped differences.
\<close>

definition rsi_gain :: "fl list \<Rightarrow> nat \<Rightarrow> fl list" where
  "rsi_gain series period = rolling_mean period (map clip_lower0 (diff series))"

definition rsi_loss :: "fl list \<Rightarrow> nat \<Rightarrow> fl list" where
  "rsi_loss series period = map fl_neg (rolling_mean period (map clip_upper0 (diff series)))"

definition rsi_of_rs :: "fl \<Rightarrow> fl" where
  "rsi_of_rs rs = fl_sub (Fin 100) (fl_div (Fin 100) (fl_add (Fin 1) rs))"

definition compute_rsi :: "fl list \<Rightarrow> nat \<Rightarrow> fl list" where
  "compute_rsi series period =
     (let gain = rsi_gain series period;
          loss = rsi_loss series period;
          rs = map2 fl_div gain loss
      in map rsi_of_rs rs)"

section \<open>The table and its indicator columns\<close>

text \<open>
  A row of the table after preprocessing: every cell is present. Dates are
  ordinals; the columns other than \<^verbatim>\<open>Symbol\<close>, \<^verbatim>\<open>Date\<close> and \<^verbatim>\<open>Close\<close>
  are kept as a list.
\<close>

type_synonym date = int

record price_row =
  Symbol :: string
  Date :: date
  Close :: real
  Others :: "real list"

record indicator_row = price_row +
  SMA_50 :: fl
  SMA_200 :: fl
  RSI :: fl
  MACD :: fl

definition group_close :: "string \<Rightarrow> price_row list \<Rightarrow> real list" where
  "group_close g df = map Close (filter (\<lambda>r. Symbol r = g) df)"

text \<open>
  \<^verbatim>\<open>df.groupby('Symbol')['Close'].transform(f)\<close>: \<open>f\<close> is applied to the
  \<^verbatim>\<open>Close\<close> values of each group, and the results go back to the rows of the
  group in their order.
\<close>

fun scatter :: "(string \<Rightarrow> fl list) \<Rightarrow> price_row list \<Rightarrow> fl list" where
  "scatter res [] = []"
| "scatter res (r # rs) =
     hd (res (Symbol r)) # scatter (res (Symbol r := tl (res (Symbol r)))) rs"

definition groupby_transform :: "(real list \<Rightarrow> fl list) \<Rightarrow> price_row list \<Rightarrow> fl list" where
  "groupby_transform f df = scatter (\<lambda>g. f (group_close g df)) df"

definition with_indicators :: "price_row \<times> fl \<times> fl \<times> fl \<times> fl \<Rightarrow> indicator_row" where
  "with_indicators = (\<lambda>(r, s50, s200, rsi, macd).
     price_row.extend r \<lparr>SMA_50 = s50, SMA_200 = s200, RSI = rsi, MACD = macd\<rparr>)"

definition add_indicators :: "price_row list \<Rightarrow> indicator_row list" where
  "add_indicators df =
     (let sma_50 = groupby_transform (\<lambda>x. rolling_mean 50 (map Fin x)) df;
          sma_200 = groupby_transform (\<lambda>x. rolling_mean 200 (map Fin x)) df;
          rsi = groupby_transform (\<lambda>x. compute_rsi (map Fin x) 14) df;
          ema_12 = groupby_transform (\<lambda>x. ewm_mean 12 x) df;
          ema_26 = groupby_transform (\<lambda>x. ewm_mean 26 x) df;
          macd = map2 fl_sub ema_12 ema_26
      in map with_indicators (zip df (zip sma_50 (zip sma_200 (zip rsi macd)))))"


text \<open>
  Two notions used by the proofs: the values of a column at the rows that
  satisfy a predicate, and the four indicator values of one partition.
\<close>

definition sel :: "('a \<Rightarrow> bool) \<Rightarrow> 'a list \<Rightarrow> 'b list \<Rightarrow> 'b list" where
  "sel P xs ys = map snd (filter (\<lambda>p. P (fst p)) (zip xs ys))"

definition indicator_columns :: "real list \<Rightarrow> (fl \<times> fl \<times> fl \<times> fl) list" where
  "indicator_columns x =
     zip (rolling_mean 50 (map Fin x)) (zip (rolling_mean 200 (map Fin x))
       (zip (compute_rsi (map Fin x) 14) (map2 fl_sub (ewm_mean 12 x) (ewm_mean 26 x))))"

section \<open>Loading and preprocessing\<close>

text \<open>
  A row as \<^verbatim>\<open>read_csv\<close> delivers it: any cell may be missing. The parsing of the
  file and of the dates is the library's and is not modelled.
\<close>

record raw_row =
  Symbol_cell :: "string option"
  Date_cell :: "date option"
  Close_cell :: "real option"
  Other_cells :: "real option list"

text \<open>
  \<^verbatim>\<open>df.fillna(method='ffill', inplace=True)\<close>: going down each column, a missing
  cell takes the value of the cell above it (already filled); a missing cell
  with no value above it stays missing.
\<close>

definition ffill_cell :: "'a option \<Rightarrow> 'a option \<Rightarrow> 'a option" where
  "ffill_cell prev cur = (case cur of None \<Rightarrow> prev | Some v \<Rightarrow> Some v)"

definition other_cell :: "raw_row \<Rightarrow> nat \<Rightarrow> real option" where
  "other_cell r j = (if j < length (Other_cells r) then Other_cells r ! j else None)"

definition ffill_row :: "raw_row \<Rightarrow> raw_row \<Rightarrow> raw_row" where
  "ffill_row prev cur =
     \<lparr>Symbol_cell = ffill_cell (Symbol_cell prev) (Symbol_cell cur),
      Date_cell = ffill_cell (Date_cell prev) (Date_cell cur),
      Close_cell = ffill_cell (Close_cell prev) (Close_cell cur),
      Other_cells = map (\<lambda>j. ffill_cell (other_cell prev j) (Other_cells cur ! j))
                      [0..<length (Other_cells cur)]\<rparr>"

fun ffill_from :: "raw_row \<Rightarrow> raw_row list \<Rightarrow> raw_row list" where
  "ffill_from prev [] = []"
| "ffill_from prev (r # rs) = (let r' = ffill_row prev r in r' # ffill_from r' rs)"

definition ffill :: "raw_row list \<Rightarrow> raw_row list" where
  "ffill rows =
     ffill_from \<lparr>Symbol_cell = None, Date_cell = None, Close_cell = None, Other_cells = []\<rparr> rows"

text \<open>
  \<^verbatim>\<open>df.dropna(inplace=True)\<close> with its defaults (\<^verbatim>\<open>axis=0, how='any'\<close>): a row is
  kept when none of its cells is missing.
\<close>

definition notna_row :: "raw_row \<Rightarrow> bool" where
  "notna_row r = (Symbol_cell r \<noteq> None \<and> Date_cell r \<noteq> None \<and> Close_cell r \<noteq> None
                    \<and> None \<notin> set (Other_cells r))"

definition dropna :: "raw_row list \<Rightarrow> raw_row list" where
  "dropna rows = filter notna_row rows"

definition to_price_row :: "raw_row \<Rightarrow> price_row" where
  "to_price_row r =
     \<lparr>Symbol = the (Symbol_cell r), Date = the (Date_cell r), Close = the (Close_cell r),
      Others = map the (Other_cells r)\<rparr>"

text \<open>
  \<^verbatim>\<open>df.sort_values(by=['Symbol', 'Date']).reset_index(drop=True)\<close>: a stable sort
  on the pair of keys.
\<close>

definition sort_values :: "price_row list \<Rightarrow> price_row list" where
  "sort_values df = sort_key (\<lambda>r. (Symbol r, Date r)) df"

definition preprocess :: "raw_row list \<Rightarrow> price_row list" where
  "preprocess raw = sort_values (map to_price_row (dropna (ffill raw)))"

section \<open>Filtering\<close>

text \<open>
  \<^verbatim>\<open>
  filtered_df = df[(df['Symbol'].isin(selected_symbols)) & (df['Date'] >= start_date)
                   & (df['Date'] <= end_date)]
  \<close>
  Three boolean Series are combined element-wise, and the rows at the true
  positions of the mask make a new table.
\<close>

definition isin :: "'a list \<Rightarrow> 'a list \<Rightarrow> bool list" where
  "isin col vals = map (\<lambda>v. v \<in> set vals) col"

definition boolean_index :: "'r list \<Rightarrow> bool list \<Rightarrow> 'r list" where
  "boolean_index df bmask = map fst (filter snd (zip df bmask))"

definition filtered_df :: "indicator_row list \<Rightarrow> string list \<Rightarrow> date \<Rightarrow> date \<Rightarrow> indicator_row list" where
  "filtered_df df selected_symbols start_date end_date =
     boolean_index df
       (map2 (\<and>)
          (map2 (\<and>) (isin (map Symbol df) selected_symbols)
                     (map (\<lambda>d. d \<ge> start_date) (map Date df)))
          (map (\<lambda>d. d \<le> end_date) (map Date df)))"

text \<open>The two variables of the script that the filter line reads and writes.\<close>

record session =
  table :: "indicator_row list"
  view :: "indicator_row list"

definition apply_filter :: "session \<Rightarrow> string list \<Rightarrow> date \<Rightarrow> date \<Rightarrow> session" where
  "apply_filter st selected_symbols start_date end_date =
     st\<lparr>view := filtered_df (table st) selected_symbols start_date end_date\<rparr>"

section \<open>The script\<close>

text \<open>
  \<^verbatim>\<open>
  if uploaded_file:
      df = pd.read_csv(uploaded_file)
  elif os.path.exists('Nifty_Stocks.csv'):
      df = pd.read_csv('Nifty_Stocks.csv')
      st.info("Loaded Nifty_Stocks.csv from local folder.")
  else:
      st.warning("Please upload a CSV file to continue.")
      st.stop()
  \<close>
  The two possible inputs are the parsed tables, when present. The run records
  what it shows and which stages it performs; the static page header and the
  pictographs that start the messages are left out.
\<close>

datatype event =
    Info string
  | Warning string
  | Preprocessed
  | Indicators_computed
  | Filter_applied
  | Charts_rendered

datatype outcome = Stopped | Finished session

definition load :: "raw_row list option \<Rightarrow> raw_row list option \<Rightarrow> event list \<times> raw_row list option" where
  "load uploaded_file local_file =
     (case uploaded_file of
        Some t \<Rightarrow> ([], Some t)
      | None \<Rightarrow>
          (case local_file of
             Some t \<Rightarrow> ([Info ''Loaded Nifty_Stocks.csv from local folder.''], Some t)
           | None \<Rightarrow> ([Warning ''Please upload a CSV file to continue.''], None)))"

definition main :: "raw_row list option \<Rightarrow> raw_row list option \<Rightarrow> string list \<Rightarrow> date \<Rightarrow> date
    \<Rightarrow> event list \<times> outcome" where
  "main uploaded_file local_file selected_symbols start_date end_date =
     (case load uploaded_file local_file of
        (shown, None) \<Rightarrow> (shown, Stopped)
      | (shown, Some raw) \<Rightarrow>
          (let df = add_indicators (preprocess raw);
               st = apply_filter \<lparr>table = df, view = []\<rparr> selected_symbols start_date end_date
           in (shown @ [Preprocessed, Indicators_computed, Filter_applied, Charts_rendered],
               Finished st)))"

section \<open>The specification's formulas\<close>








text \<open>
  Forward fill as the specification words it: the value of a cell is the last
  value present in its column at or above it.
\<close>

fun last_valid :: "'a option list \<Rightarrow> 'a option" where
  "last_valid [] = None"
| "last_valid (c # cs) = (case last_valid cs of None \<Rightarrow> c | Some v \<Rightarrow> Some v)"

text \<open>A row whose every value is absent.\<close>

definition all_missing :: "raw_row \<Rightarrow> bool" where
  "all_missing r = (Symbol_cell r = None \<and> Date_cell r = None \<and> Close_cell r = None
                      \<and> list_all (\<lambda>c. c = None) (Other_cells r))"

section \<open>Lengths and finite arithmetic\<close>

lemma length_rolling_mean [simp]: "length (rolling_mean w xs) = length xs"
  by (simp add: rolling_mean_def)

lemma length_diff [simp]: "length (diff xs) = length xs"
  by (cases xs) auto

lemma length_ewm_from [simp]: "length (ewm_from a y xs) = length xs"
  by (induction xs arbitrary: y) (auto simp: Let_def)

lemma length_ewm_mean [simp]: "length (ewm_mean n xs) = length xs"
  by (cases xs) auto

lemma length_rsi_gain [simp]: "length (rsi_gain xs p) = length xs"
  by (simp add: rsi_gain_def)

lemma length_rsi_loss [simp]: "length (rsi_loss xs p) = length xs"
  by (simp add: rsi_loss_def)

lemma length_compute_rsi [simp]: "length (compute_rsi xs p) = length xs"
  by (simp add: compute_rsi_def Let_def)

lemma length_scatter [simp]: "length (scatter res df) = length df"
  by (induction df arbitrary: res) auto

lemma length_groupby_transform [simp]: "length (groupby_transform f df) = length df"
  by (simp add: groupby_transform_def)



lemma fl_div_Fin_pos: "0 < b \<Longrightarrow> fl_div (Fin a) (Fin b) = Fin (a / b)"
  by (simp add: fl_div_def zero_s_def)

lemma fl_sub_Fin: "fl_sub (Fin a) (Fin b) = Fin (a - b)"
  by (simp add: fl_sub_def)








lemma sel_Nil [simp]: "sel P [] ys = []" "sel P xs [] = []"
  by (simp_all add: sel_def)

lemma sel_Cons [simp]: "sel P (x # xs) (y # ys) = (if P x then y # sel P xs ys else sel P xs ys)"
  by (simp add: sel_def)

lemma length_sel: "length ys = length xs \<Longrightarrow> length (sel P xs ys) = length (filter P xs)"
  by (induction xs ys rule: list_induct2') auto





lemma scatter_single:
  "\<forall>r \<in> set rows. Symbol r = S \<Longrightarrow> length rows \<le> length (res S) \<Longrightarrow>
   scatter res rows = take (length rows) (res S)"
proof (induction rows arbitrary: res)
  case Nil
  then show ?case by simp
next
  case (Cons r rs)
  then obtain v vs where res: "res S = v # vs"
    by (cases "res S") auto
  define res' where "res' = res (Symbol r := tl (res (Symbol r)))"
  have step: "scatter res (r # rs) = hd (res (Symbol r)) # scatter res' rs"
    by (simp add: res'_def)
  have res'S: "res' S = vs"
    using Cons.prems res by (simp add: res'_def)
  have "scatter res' rs = take (length rs) (res' S)"
    using Cons.prems res res'S by (intro Cons.IH) auto
  then show ?case
    unfolding step using Cons.prems res res'S by simp
qed

lemma group_close_filter:
  "group_close S (filter (\<lambda>r. Symbol r = S) df) = group_close S df"
  by (simp add: group_close_def)

lemma length_group_close: "length (group_close S df) = length (filter (\<lambda>r. Symbol r = S) df)"
  by (simp add: group_close_def)

lemma groupby_transform_single:
  assumes "\<And>xs. length (f xs) = length xs"
  shows "groupby_transform f (filter (\<lambda>r. Symbol r = S) df) = f (group_close S df)"
proof -
  let ?rows = "filter (\<lambda>r. Symbol r = S) df"
  have "scatter (\<lambda>g. f (group_close g ?rows)) ?rows
          = take (length ?rows) (f (group_close S ?rows))"
    by (rule scatter_single) (auto simp: assms length_group_close)
  then show ?thesis
    by (simp add: groupby_transform_def group_close_filter assms length_group_close)
qed




lemma add_indicators_single:
  "add_indicators (filter (\<lambda>r. Symbol r = S) df) =
   map with_indicators (zip (filter (\<lambda>r. Symbol r = S) df) (indicator_columns (group_close S df)))"
  by (simp add: add_indicators_def Let_def groupby_transform_single indicator_columns_def)

section \<open>Indicators of a partition\<close>

lemma length_indicator_columns [simp]: "length (indicator_columns x) = length x"
  by (simp add: indicator_columns_def)












subsection \<open>Instances\<close>




section \<open>The relative strength index\<close>











lemma compute_rsi_nth:
  "i < length series \<Longrightarrow>
   compute_rsi series period ! i
     = rsi_of_rs (fl_div (rsi_gain series period ! i) (rsi_loss series period ! i))"
  by (simp add: compute_rsi_def Let_def)

lemma rsi_of_rs_NaN: "rsi_of_rs NaN = NaN"
  by (simp add: rsi_of_rs_def fl_div_def fl_sub_def)

lemma rsi_of_rs_inf: "rsi_of_rs PInf = Fin 100" "rsi_of_rs NInf = Fin 100"
  by (simp_all add: rsi_of_rs_def fl_div_def fl_sub_def zero_s_def)





text \<open>
  Claim C4. Where the average gain and the average loss of \<^verbatim>\<open>compute_rsi\<close> are
  both zero, the result is not-a-number: it is neither 100 nor 0.
\<close>

theorem rsi_undefined_when_both_averages_zero:
  assumes "i < length series"
    and "is_zero (rsi_gain series 14 ! i)" and "is_zero (rsi_loss series 14 ! i)"
  shows "compute_rsi series 14 ! i = NaN
       \<and> compute_rsi series 14 ! i \<noteq> Fin 100 \<and> compute_rsi series 14 ! i \<noteq> Fin 0"
proof -
  have "fl_div (rsi_gain series 14 ! i) (rsi_loss series 14 ! i) = NaN"
    using assms(2,3)
    by (cases "rsi_gain series 14 ! i"; cases "rsi_loss series 14 ! i") (simp_all add: fl_div_def)
  then show ?thesis
    using assms(1) by (simp add: compute_rsi_nth rsi_of_rs_NaN)
qed

theorem rsi_undefined_when_both_averages_zero_witness:
  "compute_rsi (map Fin (replicate 15 100)) 14 ! 14 = NaN"
proof -
  have "14 < length (map Fin (replicate 15 100))"
    by simp
  moreover have "is_zero (rsi_gain (map Fin (replicate 15 100)) 14 ! 14)"
    by code_simp
  moreover have "is_zero (rsi_loss (map Fin (replicate 15 100)) 14 ! 14)"
    by code_simp
  ultimately show ?thesis
    using rsi_undefined_when_both_averages_zero [of 14 "map Fin (replicate 15 100)"] by blast
qed

text \<open>
  Claim C9. Where the average gain and the average loss of \<^verbatim>\<open>compute_rsi\<close> are
  both positive finite numbers, the result is a finite number between 0 and
  100.
\<close>

theorem rsi_bounded:
  assumes "i < length series"
    and "rsi_gain series 14 ! i = Fin g" and "rsi_loss series 14 ! i = Fin l"
    and "0 < g" and "0 < l"
  shows "compute_rsi series 14 ! i = Fin (100 - 100 / (1 + g / l))
       \<and> 0 \<le> 100 - 100 / (1 + g / l) \<and> 100 - 100 / (1 + g / l) \<le> 100"
proof -
  have pos: "0 < 1 + g / l"
    using assms(4,5) by (simp add: add_pos_pos)
  have "fl_div (Fin g) (Fin l) = Fin (g / l)"
    using assms(5) by (rule fl_div_Fin_pos)
  moreover have "fl_div (Fin 100) (Fin (1 + g / l)) = Fin (100 / (1 + g / l))"
    using pos by (rule fl_div_Fin_pos)
  ultimately have "compute_rsi series 14 ! i = Fin (100 - 100 / (1 + g / l))"
    using assms(1-3) by (simp add: compute_rsi_nth rsi_of_rs_def fl_sub_Fin)
  moreover have "1 \<le> 1 + g / l"
    using assms(4,5) by simp
  then have "100 / (1 + g / l) \<le> 100"
    using pos by (simp add: pos_divide_le_eq)
  moreover have "0 \<le> 100 / (1 + g / l)"
    using pos by simp
  ultimately show ?thesis by simp
qed

theorem rsi_bounded_witness:
  "compute_rsi (map Fin [1, 2, 3, 4, 5, 6, 7, 8, 9, 10, 11, 12, 13, 14, 15, 14]) 14 ! 15
     = Fin (650 / 7)"
proof -
  let ?s = "map Fin [1, 2, 3, 4, 5, 6, 7, 8, 9, 10, 11, 12, 13, 14, 15, 14]"
  have "15 < length ?s"
    by simp
  moreover have "rsi_gain ?s 14 ! 15 = Fin (13 / 14)"
    by code_simp
  moreover have "rsi_loss ?s 14 ! 15 = Fin (1 / 14)"
    by code_simp
  ultimately show ?thesis
    using rsi_bounded [of 15 ?s "13 / 14" "1 / 14"] by simp
qed

text \<open>
  Claim C10. Where the average loss of \<^verbatim>\<open>compute_rsi\<close> is zero and the average
  gain is positive, \<open>rs\<close> is infinite and the result is exactly 100.
\<close>

theorem rsi_is_100_when_no_loss:
  assumes "i < length series"
    and "rsi_gain series 14 ! i = Fin g" and "0 < g"
    and "is_zero (rsi_loss series 14 ! i)"
  shows "is_inf (fl_div (rsi_gain series 14 ! i) (rsi_loss series 14 ! i))
       \<and> compute_rsi series 14 ! i = Fin 100"
proof -
  have "fl_div (Fin g) (rsi_loss series 14 ! i) = PInf
      \<or> fl_div (Fin g) (rsi_loss series 14 ! i) = NInf"
    using assms(3,4)
    by (cases "rsi_loss series 14 ! i") (simp_all add: fl_div_def inf_s_def)
  then show ?thesis
    using assms(1,2) by (auto simp: compute_rsi_nth rsi_of_rs_inf)
qed

theorem rsi_is_100_when_no_loss_witness:
  "compute_rsi (map Fin [1, 2, 3, 4, 5, 6, 7, 8, 9, 10, 11, 12, 13, 14, 15, 16]) 14 ! 15
     = Fin 100"
proof -
  let ?s = "map Fin [1, 2, 3, 4, 5, 6, 7, 8, 9, 10, 11, 12, 13, 14, 15, 16]"
  have "15 < length ?s"
    by simp
  moreover have "rsi_gain ?s 14 ! 15 = Fin 1"
    by code_simp
  moreover have "is_zero (rsi_loss ?s 14 ! 15)"
    by code_simp
  ultimately show ?thesis
    using rsi_is_100_when_no_loss [of 15 ?s 1] by simp
qed

section \<open>Filtering, loading and preprocessing\<close>

lemma boolean_index_map: "boolean_index df (map p df) = filter p df"
  by (induction df) (auto simp: boolean_index_def)

lemma filter_mask:
  "map2 (\<and>) (map2 (\<and>) (isin (map Symbol df) syms) (map (\<lambda>d. d \<ge> s) (map Date df)))
      (map (\<lambda>d. d \<le> e) (map Date df))
   = map (\<lambda>r. Symbol r \<in> set syms \<and> s \<le> Date r \<and> Date r \<le> e) df"
  by (induction df) (auto simp: isin_def)

lemma filtered_df_filter:
  "filtered_df df syms s e = filter (\<lambda>r. Symbol r \<in> set syms \<and> s \<le> Date r \<and> Date r \<le> e) df"
  unfolding filtered_df_def filter_mask by (rule boolean_index_map)

text \<open>
  Claim C6. The filter returns exactly the rows whose symbol is selected and
  whose date lies between the two dates, both ends included, in table order.
  With no selected symbol, with an empty date range, or when no row matches,
  the result is the empty table. The filter line writes the view and leaves the
  table as it was.
\<close>

theorem filter_selects_rows:
  "filtered_df df syms s e = filter (\<lambda>r. Symbol r \<in> set syms \<and> s \<le> Date r \<and> Date r \<le> e) df
   \<and> filtered_df df [] s e = []
   \<and> (e < s \<longrightarrow> filtered_df df syms s e = [])
   \<and> ((\<forall>r \<in> set df. \<not> (Symbol r \<in> set syms \<and> s \<le> Date r \<and> Date r \<le> e))
        \<longrightarrow> filtered_df df syms s e = [])
   \<and> table (apply_filter st syms s e) = table st
   \<and> view (apply_filter st syms s e) = filtered_df (table st) syms s e"
  by (auto simp: filtered_df_filter apply_filter_def filter_empty_conv)

theorem filter_selects_rows_witness:
  "filtered_df
     [\<lparr>Symbol = ''A'', Date = 1, Close = 10, Others = [],
        SMA_50 = NaN, SMA_200 = NaN, RSI = NaN, MACD = Fin 0\<rparr>,
      \<lparr>Symbol = ''A'', Date = 2, Close = 20, Others = [],
        SMA_50 = NaN, SMA_200 = NaN, RSI = NaN, MACD = Fin (280 / 351)\<rparr>,
      \<lparr>Symbol = ''B'', Date = 2, Close = 7, Others = [],
        SMA_50 = NaN, SMA_200 = NaN, RSI = NaN, MACD = Fin 0\<rparr>] [''A''] 5 3 = []
   \<and> filtered_df
     [\<lparr>Symbol = ''A'', Date = 1, Close = 10, Others = [],
        SMA_50 = NaN, SMA_200 = NaN, RSI = NaN, MACD = Fin 0\<rparr>,
      \<lparr>Symbol = ''A'', Date = 2, Close = 20, Others = [],
        SMA_50 = NaN, SMA_200 = NaN, RSI = NaN, MACD = Fin (280 / 351)\<rparr>,
      \<lparr>Symbol = ''B'', Date = 2, Close = 7, Others = [],
        SMA_50 = NaN, SMA_200 = NaN, RSI = NaN, MACD = Fin 0\<rparr>] [''A''] 1 2 =
     [\<lparr>Symbol = ''A'', Date = 1, Close = 10, Others = [],
        SMA_50 = NaN, SMA_200 = NaN, RSI = NaN, MACD = Fin 0\<rparr>,
      \<lparr>Symbol = ''A'', Date = 2, Close = 20, Others = [],
        SMA_50 = NaN, SMA_200 = NaN, RSI = NaN, MACD = Fin (280 / 351)\<rparr>]"
proof -
  let ?t = "[\<lparr>Symbol = ''A'', Date = 1, Close = 10, Others = [],
        SMA_50 = NaN, SMA_200 = NaN, RSI = NaN, MACD = Fin 0\<rparr>,
      \<lparr>Symbol = ''A'', Date = 2, Close = 20, Others = [],
        SMA_50 = NaN, SMA_200 = NaN, RSI = NaN, MACD = Fin (280 / 351)\<rparr>,
      \<lparr>Symbol = ''B'', Date = 2, Close = 7, Others = [],
        SMA_50 = NaN, SMA_200 = NaN, RSI = NaN, MACD = Fin 0\<rparr>]"
  have "(3::int) < 5" by simp
  with filter_selects_rows [of ?t "[''A'']" 5 3] have "filtered_df ?t [''A''] 5 3 = []"
    by blast
  moreover from filter_selects_rows [of ?t "[''A'']" 1 2]
  have "filtered_df ?t [''A''] 1 2
          = filter (\<lambda>r. Symbol r \<in> set [''A''] \<and> 1 \<le> Date r \<and> Date r \<le> 2) ?t"
    by blast
  ultimately show ?thesis by simp
qed

text \<open>
  Claim C8. With no uploaded file and no local default file, the run shows the
  warning and stops: no stage of preprocessing, indicator computation, filtering
  or rendering is performed.
\<close>

theorem missing_input_halts:
  "main None None selected_symbols start_date end_date
     = ([Warning ''Please upload a CSV file to continue.''], Stopped)"
  by (simp add: main_def load_def)

lemma last_valid_ffill_cell: "last_valid (ffill_cell a b # cs) = last_valid (a # b # cs)"
  by (auto simp: ffill_cell_def split: option.splits)

lemma last_valid_None: "last_valid (None # cs) = last_valid cs"
  by (simp split: option.splits)

lemma length_ffill_from [simp]: "length (ffill_from prev rows) = length rows"
  by (induction rows arbitrary: prev) (auto simp: Let_def)

lemma ffill_from_column:
  assumes "\<And>p r. r \<in> set rows \<Longrightarrow> c (ffill_row p r) = ffill_cell (c p) (c r)"
    and "i < length rows"
  shows "c (ffill_from prev rows ! i) = last_valid (c prev # map c (take (Suc i) rows))"
  using assms
proof (induction rows arbitrary: prev i)
  case Nil
  then show ?case by simp
next
  case (Cons r rs)
  have step: "c (ffill_row prev r) = ffill_cell (c prev) (c r)"
    by (rule Cons.prems(1)) simp
  show ?case
  proof (cases i)
    case 0
    then show ?thesis
      by (simp add: Let_def step ffill_cell_def split: option.splits)
  next
    case (Suc k)
    with Cons.prems(2) have k: "k < length rs" by simp
    have "c (ffill_from (ffill_row prev r) rs ! k)
            = last_valid (c (ffill_row prev r) # map c (take (Suc k) rs))"
      by (rule Cons.IH [OF _ k]) (simp add: Cons.prems(1))
    then show ?thesis
      using Suc by (simp only: step last_valid_ffill_cell) (simp add: Let_def)
  qed
qed

lemma Other_cells_ffill_from:
  "i < length rows \<Longrightarrow>
   length (Other_cells (ffill_from prev rows ! i)) = length (Other_cells (rows ! i))"
proof (induction rows arbitrary: prev i)
  case Nil
  then show ?case by simp
next
  case (Cons r rs)
  then show ?case
    by (cases i) (auto simp: Let_def ffill_row_def)
qed

lemma other_cell_ffill_row:
  "j < length (Other_cells r) \<Longrightarrow>
   other_cell (ffill_row p r) j = ffill_cell (other_cell p j) (other_cell r j)"
  by (simp add: other_cell_def ffill_row_def)

lemma ffill_column:
  assumes "\<And>p r. r \<in> set rows \<Longrightarrow> c (ffill_row p r) = ffill_cell (c p) (c r)"
    and "c \<lparr>Symbol_cell = None, Date_cell = None, Close_cell = None, Other_cells = []\<rparr> = None"
    and "i < length rows"
  shows "c (ffill rows ! i) = last_valid (map c (take (Suc i) rows))"
  unfolding ffill_def
  by (subst ffill_from_column [of rows c, OF assms(1,3)]) (simp_all only: assms(2) last_valid_None)

text \<open>
  Claim C7, as amended. Missing values are forward-filled per column first, in
  file order over the whole table: each cell takes the last value present at or
  above it in its column. Afterwards every row that still has a missing value is
  dropped, so that only rows with every value present are kept. The kept rows
  are then sorted by symbol and date, before any grouping.
\<close>

theorem ffill_then_dropna_any:
  assumes "i < length raw" and "\<forall>r \<in> set raw. length (Other_cells r) = n"
  shows "Symbol_cell (ffill raw ! i) = last_valid (map Symbol_cell (take (Suc i) raw))
   \<and> Date_cell (ffill raw ! i) = last_valid (map Date_cell (take (Suc i) raw))
   \<and> Close_cell (ffill raw ! i) = last_valid (map Close_cell (take (Suc i) raw))
   \<and> length (Other_cells (ffill raw ! i)) = n
   \<and> (\<forall>j < n. Other_cells (ffill raw ! i) ! j
          = last_valid (map (\<lambda>r. Other_cells r ! j) (take (Suc i) raw)))
   \<and> (\<forall>r. r \<in> set (dropna (ffill raw)) \<longleftrightarrow>
          r \<in> set (ffill raw) \<and> Symbol_cell r \<noteq> None \<and> Date_cell r \<noteq> None
          \<and> Close_cell r \<noteq> None \<and> None \<notin> set (Other_cells r))
   \<and> preprocess raw = sort_values (map to_price_row (dropna (ffill raw)))
   \<and> sorted (map (\<lambda>r. (Symbol r, Date r)) (preprocess raw))
   \<and> mset (preprocess raw) = mset (map to_price_row (dropna (ffill raw)))"
proof -
  have sym: "Symbol_cell (ffill raw ! i) = last_valid (map Symbol_cell (take (Suc i) raw))"
    by (rule ffill_column) (simp_all add: ffill_row_def assms(1))
  have dat: "Date_cell (ffill raw ! i) = last_valid (map Date_cell (take (Suc i) raw))"
    by (rule ffill_column) (simp_all add: ffill_row_def assms(1))
  have clo: "Close_cell (ffill raw ! i) = last_valid (map Close_cell (take (Suc i) raw))"
    by (rule ffill_column) (simp_all add: ffill_row_def assms(1))
  have len: "length (Other_cells (ffill raw ! i)) = n"
    using assms by (simp add: ffill_def Other_cells_ffill_from)
  have oth: "Other_cells (ffill raw ! i) ! j
          = last_valid (map (\<lambda>r. Other_cells r ! j) (take (Suc i) raw))" if j: "j < n" for j
  proof -
    have e1: "other_cell (ffill raw ! i) j
                = last_valid (map (\<lambda>r. other_cell r j) (take (Suc i) raw))"
      by (rule ffill_column) (use assms j in \<open>simp_all add: other_cell_ffill_row\<close>, simp add: other_cell_def)
    have e2: "map (\<lambda>r. other_cell r j) (take (Suc i) raw)
                 = map (\<lambda>r. Other_cells r ! j) (take (Suc i) raw)"
      using assms(2) j by (auto simp: other_cell_def dest: in_set_takeD)
    have e3: "other_cell (ffill raw ! i) j = Other_cells (ffill raw ! i) ! j"
      using len j by (simp add: other_cell_def)
    from e1 show ?thesis
      by (simp only: e2 e3)
  qed
  have drp: "\<forall>r. r \<in> set (dropna (ffill raw)) \<longleftrightarrow>
          r \<in> set (ffill raw) \<and> Symbol_cell r \<noteq> None \<and> Date_cell r \<noteq> None
          \<and> Close_cell r \<noteq> None \<and> None \<notin> set (Other_cells r)"
    by (auto simp: dropna_def notna_row_def)
  have srt: "sorted (map (\<lambda>r. (Symbol r, Date r)) (preprocess raw))"
    by (simp add: preprocess_def sort_values_def)
  have mst: "mset (preprocess raw) = mset (map to_price_row (dropna (ffill raw)))"
    by (simp add: preprocess_def sort_values_def)
  from sym dat clo len oth drp srt mst show ?thesis
    by (simp add: preprocess_def)
qed

text \<open>
  Claim C7 as stated fails: a row that still has a value present after the
  forward fill is dropped when another of its cells is missing.
\<close>

theorem dropna_drops_partly_missing_row:
  "\<not> all_missing
        (ffill [\<lparr>Symbol_cell = Some ''A'', Date_cell = Some 1, Close_cell = None, Other_cells = []\<rparr>,
                \<lparr>Symbol_cell = Some ''A'', Date_cell = Some 2, Close_cell = Some 10, Other_cells = []\<rparr>] ! 0)
   \<and> ffill [\<lparr>Symbol_cell = Some ''A'', Date_cell = Some 1, Close_cell = None, Other_cells = []\<rparr>,
            \<lparr>Symbol_cell = Some ''A'', Date_cell = Some 2, Close_cell = Some 10, Other_cells = []\<rparr>] ! 0
       \<notin> set (dropna
           (ffill [\<lparr>Symbol_cell = Some ''A'', Date_cell = Some 1, Close_cell = None, Other_cells = []\<rparr>,
                   \<lparr>Symbol_cell = Some ''A'', Date_cell = Some 2, Close_cell = Some 10, Other_cells = []\<rparr>]))
   \<and> preprocess [\<lparr>Symbol_cell = Some ''A'', Date_cell = Some 1, Close_cell = None, Other_cells = []\<rparr>,
                 \<lparr>Symbol_cell = Some ''A'', Date_cell = Some 2, Close_cell = Some 10, Other_cells = []\<rparr>]
       = [\<lparr>Symbol = ''A'', Date = 2, Close = 10, Others = []\<rparr>]"
  by (simp add: ffill_def ffill_row_def ffill_cell_def Let_def all_missing_def dropna_def
      notna_row_def preprocess_def sort_values_def to_price_row_def)

theorem ffill_then_dropna_any_witness:
  "Close_cell
     (ffill [\<lparr>Symbol_cell = Some ''B'', Date_cell = Some 2, Close_cell = Some 10, Other_cells = [None]\<rparr>,
             \<lparr>Symbol_cell = None, Date_cell = Some 3, Close_cell = None, Other_cells = [Some 5]\<rparr>,
             \<lparr>Symbol_cell = Some ''A'', Date_cell = Some 1, Close_cell = Some 7, Other_cells = [None]\<rparr>] ! 1)
     = Some 10
   \<and> preprocess
       [\<lparr>Symbol_cell = Some ''B'', Date_cell = Some 2, Close_cell = Some 10, Other_cells = [None]\<rparr>,
        \<lparr>Symbol_cell = None, Date_cell = Some 3, Close_cell = None, Other_cells = [Some 5]\<rparr>,
        \<lparr>Symbol_cell = Some ''A'', Date_cell = Some 1, Close_cell = Some 7, Other_cells = [None]\<rparr>]
     = [\<lparr>Symbol = ''A'', Date = 1, Close = 7, Others = [5]\<rparr>,
        \<lparr>Symbol = ''B'', Date = 3, Close = 10, Others = [5]\<rparr>]"
proof -
  let ?raw = "[\<lparr>Symbol_cell = Some ''B'', Date_cell = Some 2, Close_cell = Some 10, Other_cells = [None]\<rparr>,
        \<lparr>Symbol_cell = None, Date_cell = Some 3, Close_cell = None, Other_cells = [Some 5]\<rparr>,
        \<lparr>Symbol_cell = Some ''A'', Date_cell = Some 1, Close_cell = Some 7, Other_cells = [None]\<rparr>]"
  have h1: "1 < length ?raw" by simp
  have h2: "\<forall>r \<in> set ?raw. length (Other_cells r) = 1" by simp
  have v: "sort_values (map to_price_row (dropna (ffill ?raw)))
      = [\<lparr>Symbol = ''A'', Date = 1, Close = 7, Others = [5]\<rparr>,
         \<lparr>Symbol = ''B'', Date = 3, Close = 10, Others = [5]\<rparr>]"
    by code_simp
  from ffill_then_dropna_any [OF h1 h2] show ?thesis
    by (simp add: v)
qed

end
